theory Spec2Isabelle
  imports Main "HOL-Library.Word" "HOL-Library.AList"
begin

section \<open>The Tasks API of main.go\<close>

text \<open>
  The repository is one Go file: five gin handlers over one MongoDB collection, the
  database set-up and \<^verbatim>\<open>main\<close>. The file holds two variants of the program; the
  development embeds the first one (lines 1 to 247: validation of the title, status codes
  chosen per condition), which is the one the README describes.

  The handlers are translated line by line. What they call in the gin router, in the BSON
  codec and in the MongoDB driver is modelled after the documented behaviour of those
  libraries, just as far as the handlers use them:
  \<^item> a Go \<^verbatim>\<open>string\<close> is a sequence of bytes and \<^verbatim>\<open>len\<close> counts bytes; so is
    \<^typ>\<open>string\<close> here, with \<^const>\<open>length\<close>;
  \<^item> an error is a value of the datatype \<open>error\<close>; a driver call that may fail for
    reasons outside the program (the network, the server) fails when the environment
    record \<open>env\<close> says so;
  \<^item> the collection is the list of its documents in insertion order, each document an
    ordered list of fields that starts with \<^verbatim>\<open>_id\<close>;
  \<^item> the response is the state of gin's response writer once the handler has returned.
\<close>

subsection \<open>Object identifiers\<close>

type_synonym byte = "8 word"

text \<open>\<^verbatim>\<open>primitive.ObjectID\<close> is \<^verbatim>\<open>[12]byte\<close>; \<^verbatim>\<open>NilObjectID\<close> is its zero value.\<close>

type_synonym ObjectID = "byte list"

definition NilObjectID :: ObjectID where
  "NilObjectID = replicate 12 0"

definition IsZero :: "ObjectID \<Rightarrow> bool" where
  "IsZero oid = (oid = NilObjectID)"

datatype error =
    Errorf string
  | ErrInvalidHex
  | ErrLength
  | InvalidByteError char
  | ErrNoDocuments
  | DuplicateKey
  | ImmutableField
  | DecodeError string
  | BindError string
  | StoreError string

text \<open>\<^verbatim>\<open>encoding/hex\<close>: both cases of the letters a to f are digits.\<close>

definition fromHexChar :: "char \<Rightarrow> nat option" where
  "fromHexChar c =
     (let n = (of_char c :: nat) in
      if 48 \<le> n \<and> n \<le> 57 then Some (n - 48)
      else if 97 \<le> n \<and> n \<le> 102 then Some (n - 97 + 10)
      else if 65 \<le> n \<and> n \<le> 70 then Some (n - 65 + 10)
      else None)"

fun hex_Decode :: "string \<Rightarrow> error + byte list" where
  "hex_Decode [] = Inr []"
| "hex_Decode [p] =
     (case fromHexChar p of None \<Rightarrow> Inl (InvalidByteError p) | Some a \<Rightarrow> Inl ErrLength)"
| "hex_Decode (p # q # rest) =
     (case fromHexChar p of
        None \<Rightarrow> Inl (InvalidByteError p)
      | Some a \<Rightarrow>
          (case fromHexChar q of
             None \<Rightarrow> Inl (InvalidByteError q)
           | Some b \<Rightarrow>
               (case hex_Decode rest of
                  Inl e \<Rightarrow> Inl e
                | Inr bs \<Rightarrow> Inr (of_nat (16 * a + b) # bs))))"

definition ObjectIDFromHex :: "string \<Rightarrow> error + ObjectID" where
  "ObjectIDFromHex s = (if length s \<noteq> 24 then Inl ErrInvalidHex else hex_Decode s)"

definition hexdigit :: "nat \<Rightarrow> char" where
  "hexdigit n = (if n < 10 then char_of (48 + n) else char_of (87 + n))"

definition Hex :: "ObjectID \<Rightarrow> string" where
  "Hex oid = concat (map (\<lambda>b. [hexdigit (unat b div 16), hexdigit (unat b mod 16)]) oid)"

subsection \<open>The Task struct and its two codecs\<close>

record Task =
  ID :: ObjectID
  Title :: string
  Completed :: bool

datatype bson = BObjectID ObjectID | BString string | BBoolean bool

type_synonym document = "(string \<times> bson) list"

text \<open>
  The struct codec of the driver follows the \<^verbatim>\<open>bson\<close> tags: \<^verbatim>\<open>_id,omitempty\<close>,
  \<^verbatim>\<open>title\<close>, \<^verbatim>\<open>completed,omitempty\<close>. A field tagged \<^verbatim>\<open>omitempty\<close> is left out
  of the document when it holds its zero value: the nil identifier, and \<^verbatim>\<open>false\<close>.
\<close>

definition marshal_Task :: "Task \<Rightarrow> document" where
  "marshal_Task t =
     (if IsZero (ID t) then [] else [(''_id'', BObjectID (ID t))])
     @ [(''title'', BString (Title t))]
     @ (if Completed t = False then [] else [(''completed'', BBoolean (Completed t))])"

text \<open>Decoding a document into the struct: an absent field leaves the zero value.\<close>

definition decode_Task :: "document \<Rightarrow> error + Task" where
  "decode_Task d =
     (case (case map_of d ''_id'' of
              None \<Rightarrow> Inr NilObjectID
            | Some (BObjectID i) \<Rightarrow> Inr i
            | Some _ \<Rightarrow> Inl (DecodeError ''_id'')) of
        Inl e \<Rightarrow> Inl e
      | Inr i \<Rightarrow>
          (case (case map_of d ''title'' of
                   None \<Rightarrow> Inr []
                 | Some (BString s) \<Rightarrow> Inr s
                 | Some _ \<Rightarrow> Inl (DecodeError ''title'')) of
             Inl e \<Rightarrow> Inl e
           | Inr s \<Rightarrow>
               (case (case map_of d ''completed'' of
                        None \<Rightarrow> Inr False
                      | Some (BBoolean b) \<Rightarrow> Inr b
                      | Some _ \<Rightarrow> Inl (DecodeError ''completed'')) of
                  Inl e \<Rightarrow> Inl e
                | Inr b \<Rightarrow> Inr \<lparr>ID = i, Title = s, Completed = b\<rparr>)))"

text \<open>
  JSON values as the handlers send them. \<open>JErrorText e\<close> is the JSON string holding
  \<^verbatim>\<open>err.Error()\<close>. An object keeps its members in a list; their order carries no meaning.
\<close>

datatype json =
    JNull
  | JBool bool
  | JString string
  | JErrorText error
  | JArray "json list"
  | JObject "(string \<times> json) list"

text \<open>The \<^verbatim>\<open>json\<close> tags of the struct: \<^verbatim>\<open>id\<close>, \<^verbatim>\<open>title\<close>, \<^verbatim>\<open>completed\<close>.\<close>

definition Task_json :: "Task \<Rightarrow> json" where
  "Task_json t =
     JObject [(''id'', JString (Hex (ID t))), (''title'', JString (Title t)),
              (''completed'', JBool (Completed t))]"

fun bson_json :: "bson \<Rightarrow> json" where
  "bson_json (BObjectID i) = JString (Hex i)"
| "bson_json (BString s) = JString s"
| "bson_json (BBoolean b) = JBool b"

text \<open>A \<^verbatim>\<open>bson.M\<close> is a map from the document's own keys to its values.\<close>

definition M_json :: "document \<Rightarrow> json" where
  "M_json d = JObject (map (\<lambda>(k, v). (k, bson_json v)) d)"

text \<open>
  \<^verbatim>\<open>GetTasks\<close> declares its slice without a value, and \<^verbatim>\<open>cursor.All\<close> leaves it nil
  when the cursor holds no document: the slice is nil exactly when it is empty, and a nil
  slice is sent as \<^verbatim>\<open>null\<close>, not as an empty array.
\<close>

definition slice_json :: "json list \<Rightarrow> json" where
  "slice_json xs = (if xs = [] then JNull else JArray xs)"

subsection \<open>The collection\<close>

text \<open>
  What the environment decides for one request: the identifier the driver generates for a
  document inserted without one, and for each driver call the error it returns for reasons
  of its own, if any.
\<close>

record env =
  NewObjectID :: ObjectID
  InsertOne_err :: "error option"
  Find_err :: "error option"
  All_err :: "error option"
  FindOne_err :: "error option"
  UpdateOne_err :: "error option"
  DeleteOne_err :: "error option"

definition has_id :: "bson \<Rightarrow> document \<Rightarrow> bool" where
  "has_id v d = (map_of d ''_id'' = Some v)"

text \<open>
  The driver puts a generated \<^verbatim>\<open>_id\<close> in front of a document that has none; the server
  refuses a second document with an \<^verbatim>\<open>_id\<close> it already holds.
\<close>

definition InsertOne :: "env \<Rightarrow> document list \<Rightarrow> document \<Rightarrow> error + (bson \<times> document list)" where
  "InsertOne e coll doc =
     (case InsertOne_err e of
        Some err \<Rightarrow> Inl err
      | None \<Rightarrow>
          (let (v, doc') = (case map_of doc ''_id'' of
                              Some v \<Rightarrow> (v, doc)
                            | None \<Rightarrow> (BObjectID (NewObjectID e),
                                        (''_id'', BObjectID (NewObjectID e)) # doc))
           in if list_ex (has_id v) coll then Inl DuplicateKey
              else Inr (v, coll @ [doc'])))"

definition Find :: "env \<Rightarrow> document list \<Rightarrow> error + document list" where
  "Find e coll = (case Find_err e of Some err \<Rightarrow> Inl err | None \<Rightarrow> Inr coll)"

definition All :: "env \<Rightarrow> document list \<Rightarrow> error + document list" where
  "All e cursor = (case All_err e of Some err \<Rightarrow> Inl err | None \<Rightarrow> Inr cursor)"

definition FindOne_Decode :: "env \<Rightarrow> document list \<Rightarrow> ObjectID \<Rightarrow> error + Task" where
  "FindOne_Decode e coll oid =
     (case FindOne_err e of
        Some err \<Rightarrow> Inl err
      | None \<Rightarrow>
          (case find (has_id (BObjectID oid)) coll of
             None \<Rightarrow> Inl ErrNoDocuments
           | Some d \<Rightarrow> decode_Task d))"

text \<open>
  \<^verbatim>\<open>$set\<close> writes each field of its argument into the matched document: an existing
  field gets the new value, a new field is added. The server refuses to change \<^verbatim>\<open>_id\<close>.
\<close>

fun set_fields :: "document \<Rightarrow> document \<Rightarrow> error + document" where
  "set_fields [] d = Inr d"
| "set_fields ((k, v) # kvs) d =
     (if k = ''_id'' \<and> \<not> has_id v d then Inl ImmutableField
      else set_fields kvs (AList.update k v d))"

fun update_first :: "ObjectID \<Rightarrow> document \<Rightarrow> document list \<Rightarrow> error + (nat \<times> document list)" where
  "update_first oid upd [] = Inr (0, [])"
| "update_first oid upd (d # ds) =
     (if has_id (BObjectID oid) d then
        (case set_fields upd d of
           Inl err \<Rightarrow> Inl err
         | Inr d' \<Rightarrow> Inr (1, d' # ds))
      else
        (case update_first oid upd ds of
           Inl err \<Rightarrow> Inl err
         | Inr (n, ds') \<Rightarrow> Inr (n, d # ds')))"

text \<open>The first component of the result is \<^verbatim>\<open>MatchedCount\<close>.\<close>

definition UpdateOne :: "env \<Rightarrow> document list \<Rightarrow> ObjectID \<Rightarrow> document \<Rightarrow> error + (nat \<times> document list)" where
  "UpdateOne e coll oid upd =
     (case UpdateOne_err e of Some err \<Rightarrow> Inl err | None \<Rightarrow> update_first oid upd coll)"

fun delete_first :: "ObjectID \<Rightarrow> document list \<Rightarrow> nat \<times> document list" where
  "delete_first oid [] = (0, [])"
| "delete_first oid (d # ds) =
     (if has_id (BObjectID oid) d then (1, ds)
      else (case delete_first oid ds of (n, ds') \<Rightarrow> (n, d # ds')))"

text \<open>The first component of the result is \<^verbatim>\<open>DeletedCount\<close>.\<close>

definition DeleteOne :: "env \<Rightarrow> document list \<Rightarrow> ObjectID \<Rightarrow> error + (nat \<times> document list)" where
  "DeleteOne e coll oid =
     (case DeleteOne_err e of Some err \<Rightarrow> Inl err | None \<Rightarrow> Inr (delete_first oid coll))"

subsection \<open>The gin context\<close>

text \<open>
  A request as a handler sees it: the path parameter \<^verbatim>\<open>id\<close>, and what binding the body
  as JSON to a \<^verbatim>\<open>Task\<close> gives, an error for a body that is not the JSON of a Task.
\<close>

record request =
  Param_id :: string
  Body :: "error + Task"

text \<open>
  gin's response writer. The status line goes out once: with the first body written, or
  at once when a request is aborted with a status. After that \<^verbatim>\<open>WriteHeader\<close> leaves
  the status as it is (gin logs that the headers were already written).
\<close>

record ResponseWriter =
  written :: bool
  status :: nat
  body :: "json list"

definition new_writer :: ResponseWriter where
  "new_writer = \<lparr>written = False, status = 200, body = []\<rparr>"

definition WriteHeader :: "nat \<Rightarrow> ResponseWriter \<Rightarrow> ResponseWriter" where
  "WriteHeader code w =
     (if code > 0 \<and> status w \<noteq> code then (if written w then w else w\<lparr>status := code\<rparr>) else w)"

definition WriteHeaderNow :: "ResponseWriter \<Rightarrow> ResponseWriter" where
  "WriteHeaderNow w = (if \<not> written w then w\<lparr>written := True\<rparr> else w)"

definition bodyAllowedForStatus :: "nat \<Rightarrow> bool" where
  "bodyAllowedForStatus code =
     (if 100 \<le> code \<and> code \<le> 199 then False
      else if code = 204 then False
      else if code = 304 then False
      else True)"

definition c_JSON :: "nat \<Rightarrow> json \<Rightarrow> ResponseWriter \<Rightarrow> ResponseWriter" where
  "c_JSON code obj w =
     (let w1 = WriteHeader code w in
      if \<not> bodyAllowedForStatus code then WriteHeaderNow w1
      else (WriteHeaderNow w1)\<lparr>body := body w1 @ [obj]\<rparr>)"

definition AbortWithStatus :: "nat \<Rightarrow> ResponseWriter \<Rightarrow> ResponseWriter" where
  "AbortWithStatus code w = WriteHeaderNow (WriteHeader code w)"

text \<open>
  \<^verbatim>\<open>c.BindJSON\<close> is \<^verbatim>\<open>c.MustBindWith(obj, binding.JSON)\<close>, one of gin's must-bind
  methods: on a binding error it calls \<^verbatim>\<open>c.AbortWithError(http.StatusBadRequest, err)\<close>,
  which sets the status 400 and sends the status line at once, and only then returns the
  error to the handler. gin's documentation of these methods says so, and that a response
  code set afterwards has no effect but the warning that the headers were already written.
\<close>

definition BindJSON :: "request \<Rightarrow> ResponseWriter \<Rightarrow> (error + Task) \<times> ResponseWriter" where
  "BindJSON r w =
     (case Body r of
        Inl err \<Rightarrow> (Inl err, AbortWithStatus 400 w)
      | Inr task \<Rightarrow> (Inr task, w))"

subsection \<open>The handlers\<close>

definition throwError :: "nat \<Rightarrow> error \<Rightarrow> ResponseWriter \<Rightarrow> ResponseWriter" where
  "throwError status' err c =
     (let code = (if status' = 0 then 500 else status') in
      c_JSON code (JObject [(''error'', JErrorText err)]) c)"

definition message :: "string \<Rightarrow> json" where
  "message m = JObject [(''message'', JString m)]"

text \<open>
  Every handler starts on the fresh writer of its request and returns the writer and the
  collection as it leaves them.
\<close>

definition CreateTask :: "env \<Rightarrow> request \<Rightarrow> document list \<Rightarrow> ResponseWriter \<times> document list" where
  "CreateTask e r coll =
     (case BindJSON r new_writer of
        (Inl err, c) \<Rightarrow> (throwError 400 (Errorf ''invalid json'') c, coll)
      | (Inr task, c) \<Rightarrow>
          (let title = Title task in
           if title = [] then (c_JSON 422 (message ''Title cannot be empty'') c, coll)
           else if length title < 5 then
             (c_JSON 422 (message ''Title length must be at least 5'') c, coll)
           else
             (let task = task\<lparr>Completed := False\<rparr> in
              case InsertOne e coll (marshal_Task task) of
                Inl err \<Rightarrow> (throwError 500 err c, coll)
              | Inr (_, coll') \<Rightarrow>
                  (c_JSON 201 (JObject [(''message'', JString ''Task created''),
                                        (''task'', Task_json task)]) c, coll'))))"

definition GetTasks :: "env \<Rightarrow> request \<Rightarrow> document list \<Rightarrow> ResponseWriter \<times> document list" where
  "GetTasks e r coll =
     (let c = new_writer in
      case Find e coll of
        Inl err \<Rightarrow> (throwError 500 err c, coll)
      | Inr cursor \<Rightarrow>
          (case All e cursor of
             Inl err \<Rightarrow> (throwError 500 err c, coll)
           | Inr tasks \<Rightarrow>
               (c_JSON 200 (JObject [(''tasks'', slice_json (map M_json tasks))]) c, coll)))"

definition GetSpecificTask :: "env \<Rightarrow> request \<Rightarrow> document list \<Rightarrow> ResponseWriter \<times> document list" where
  "GetSpecificTask e r coll =
     (let c = new_writer in
      case ObjectIDFromHex (Param_id r) of
        Inl err \<Rightarrow> (throwError 400 err c, coll)
      | Inr objectID \<Rightarrow>
          (case FindOne_Decode e coll objectID of
             Inl err \<Rightarrow> (throwError 500 err c, coll)
           | Inr task \<Rightarrow> (c_JSON 200 (JObject [(''task'', Task_json task)]) c, coll)))"

definition UpdateTask :: "env \<Rightarrow> request \<Rightarrow> document list \<Rightarrow> ResponseWriter \<times> document list" where
  "UpdateTask e r coll =
     (let c = new_writer in
      case ObjectIDFromHex (Param_id r) of
        Inl err \<Rightarrow> (throwError 400 err c, coll)
      | Inr objectID \<Rightarrow>
          (case BindJSON r c of
             (Inl err, c) \<Rightarrow> (throwError 500 err c, coll)
           | (Inr task, c) \<Rightarrow>
               if Title task = [] then (c_JSON 422 (message ''Title cannot be empty'') c, coll)
               else if length (Title task) < 5 then
                 (c_JSON 422 (message ''Title length must be at least 5'') c, coll)
               else
                 (case UpdateOne e coll objectID (marshal_Task task) of
                    Inl err \<Rightarrow> (throwError 500 err c, coll)
                  | Inr (MatchedCount, coll') \<Rightarrow>
                      if MatchedCount = 0 then (c_JSON 404 (message ''Task not found'') c, coll')
                      else (c_JSON 200 (message ''Task updated'') c, coll'))))"

definition DeleteTask :: "env \<Rightarrow> request \<Rightarrow> document list \<Rightarrow> ResponseWriter \<times> document list" where
  "DeleteTask e r coll =
     (let c = new_writer in
      case ObjectIDFromHex (Param_id r) of
        Inl err \<Rightarrow> (throwError 400 err c, coll)
      | Inr objectID \<Rightarrow>
          (case DeleteOne e coll objectID of
             Inl err \<Rightarrow> (throwError 500 err c, coll)
           | Inr (DeletedCount, coll') \<Rightarrow>
               if DeletedCount = 0 then (c_JSON 404 (message ''Task not found'') c, coll')
               else (c_JSON 200 (message ''Task deleted'') c, coll')))"

subsection \<open>Start-up\<close>

text \<open>
  What the process finds when it starts: the value \<^verbatim>\<open>os.Getenv\<close> gives for
  \<^verbatim>\<open>MONGO_URI\<close> (empty when the variable is not set), and whether connecting and pinging
  fail. (\<^verbatim>\<open>init\<close> has run by then: a variable that the \<^verbatim>\<open>.env\<close> file sets counts as
  set.) What the process does is a list of events, in order.
\<close>

record startup =
  MONGO_URI :: string
  Connect_err :: "error option"
  Ping_err :: "error option"

datatype event =
    Print error
  | LogPrintln string
  | Route string string
  | Run string

datatype outcome = Returned | Serving

definition port :: string where
  "port = '':8000''"

definition SetUpDatabase :: "startup \<Rightarrow> event list \<times> (error + string)" where
  "SetUpDatabase s =
     (let uri = MONGO_URI s in
      if uri = [] then ([], Inl (Errorf ''MONGO_URI not set''))
      else
        (case Connect_err s of
           Some err \<Rightarrow> ([], Inl err)
         | None \<Rightarrow>
             (case Ping_err s of
                Some err \<Rightarrow> ([], Inl err)
              | None \<Rightarrow> ([LogPrintln ''Connected to MongoDB!''], Inr uri))))"

definition SetupRoutes :: "event list" where
  "SetupRoutes =
     [Route ''GET'' ''/'', Route ''POST'' ''/tasks'', Route ''GET'' ''/tasks'',
      Route ''GET'' ''/tasks/:id'', Route ''PUT'' ''/tasks/:id'', Route ''DELETE'' ''/tasks/:id'']"

text \<open>
  \<^verbatim>\<open>main\<close> up to the point where the server runs: it returns after printing the error of
  the set-up, or registers the routes and starts the server. (Waiting for the interrupt
  and disconnecting come after that point.)
\<close>

definition main :: "startup \<Rightarrow> event list \<times> outcome" where
  "main s =
     (case SetUpDatabase s of
        (log, Inl err) \<Rightarrow> (log @ [Print err], Returned)
      | (log, Inr client) \<Rightarrow> (log @ SetupRoutes @ [Run port], Serving))"

subsection \<open>Notions used to state the properties\<close>

text \<open>An environment in which no driver call fails for reasons of its own.\<close>

definition healthy :: "ObjectID \<Rightarrow> env" where
  "healthy oid =
     \<lparr>NewObjectID = oid, InsertOne_err = None, Find_err = None, All_err = None,
      FindOne_err = None, UpdateOne_err = None, DeleteOne_err = None\<rparr>"

text \<open>A response that went out with one status and one JSON body.\<close>

definition sent :: "nat \<Rightarrow> json \<Rightarrow> ResponseWriter" where
  "sent code obj = \<lparr>written = True, status = code, body = [obj]\<rparr>"

text \<open>
  The Task JSON shape: an object of exactly the members \<^verbatim>\<open>id\<close> (a string),
  \<^verbatim>\<open>title\<close> (a string) and \<^verbatim>\<open>completed\<close> (a boolean).
\<close>

definition Task_shape :: "json \<Rightarrow> bool" where
  "Task_shape j =
     (case j of
        JObject ms \<Rightarrow>
          (case (map_of ms ''id'', map_of ms ''title'', map_of ms ''completed'') of
             (Some (JString i), Some (JString s), Some (JBool b)) \<Rightarrow> length ms = 3
           | _ \<Rightarrow> False)
      | _ \<Rightarrow> False)"

text \<open>
  The number of characters of a string in UTF-8: every byte but the continuation bytes
  (those of the form 10xxxxxx) starts one. \<^verbatim>\<open>len\<close> counts all bytes.
\<close>

definition utf8_characters :: "string \<Rightarrow> nat" where
  "utf8_characters s = length (filter (\<lambda>c. (of_char c :: nat) div 64 \<noteq> 2) s)"

text \<open>No two documents of the collection have the same \<^verbatim>\<open>_id\<close>.\<close>

definition unique_ids :: "document list \<Rightarrow> bool" where
  "unique_ids coll = distinct (map (\<lambda>d. map_of d ''_id'') coll)"

text \<open>
  What holds of every document the handlers store: its \<^verbatim>\<open>_id\<close> is an identifier other
  than the nil one, its \<^verbatim>\<open>title\<close> is a string of at least 5 bytes, and its
  \<^verbatim>\<open>completed\<close> field is absent or \<^verbatim>\<open>true\<close>.
\<close>

definition stored_ok :: "document \<Rightarrow> bool" where
  "stored_ok d =
     ((case map_of d ''_id'' of Some (BObjectID i) \<Rightarrow> i \<noteq> NilObjectID | _ \<Rightarrow> False)
      \<and> (case map_of d ''title'' of Some (BString s) \<Rightarrow> 5 \<le> length s | _ \<Rightarrow> False)
      \<and> (case map_of d ''completed'' of
            None \<Rightarrow> True
          | Some (BBoolean b) \<Rightarrow> b
          | _ \<Rightarrow> False))"

text \<open>
  The collections that requests to the five handlers produce from the empty one. The
  driver generates identifiers from the clock, a random value and a counter, never the
  nil one.
\<close>

inductive reachable :: "document list \<Rightarrow> bool" where
  init: "reachable []"
| create: "reachable coll \<Longrightarrow> NewObjectID e \<noteq> NilObjectID \<Longrightarrow>
     reachable (snd (CreateTask e r coll))"
| list: "reachable coll \<Longrightarrow> reachable (snd (GetTasks e r coll))"
| get: "reachable coll \<Longrightarrow> reachable (snd (GetSpecificTask e r coll))"
| update: "reachable coll \<Longrightarrow> reachable (snd (UpdateTask e r coll))"
| delete: "reachable coll \<Longrightarrow> reachable (snd (DeleteTask e r coll))"

section \<open>Properties\<close>

lemmas gin_defs = c_JSON_def WriteHeader_def WriteHeaderNow_def bodyAllowedForStatus_def
  new_writer_def AbortWithStatus_def throwError_def BindJSON_def sent_def message_def

subsection \<open>What the driver calls do to the collection\<close>

lemma InsertOne_result:
  assumes "InsertOne e coll doc = Inr (v, coll')"
  shows "\<exists>doc'. coll' = coll @ [doc'] \<and> map_of doc' ''_id'' = Some v
           \<and> \<not> list_ex (has_id v) coll
           \<and> (doc' = doc \<or> map_of doc ''_id'' = None
                 \<and> v = BObjectID (NewObjectID e) \<and> doc' = (''_id'', v) # doc)"
  using assms
  by (auto simp: InsertOne_def Let_def split: option.splits if_splits)

lemma InsertOne_Task:
  assumes "InsertOne e coll (marshal_Task t) = Inr (v, coll')"
    and "unique_ids coll" and "list_all stored_ok coll"
    and "5 \<le> length (Title t)" and "NewObjectID e \<noteq> NilObjectID"
  shows "unique_ids coll' \<and> list_all stored_ok coll'"
proof -
  from InsertOne_result [OF assms(1)] obtain doc' where c: "coll' = coll @ [doc']"
    and v: "map_of doc' ''_id'' = Some v" and fresh: "\<not> list_ex (has_id v) coll"
    and d: "doc' = marshal_Task t \<or> map_of (marshal_Task t) ''_id'' = None
                 \<and> v = BObjectID (NewObjectID e) \<and> doc' = (''_id'', v) # marshal_Task t"
    by blast
  from fresh v have "map_of doc' ''_id'' \<notin> (\<lambda>d. map_of d ''_id'') ` set coll"
    by (auto simp: list_ex_iff has_id_def)
  with assms(2) c have u: "unique_ids coll'"
    by (simp add: unique_ids_def)
  from d v assms(4,5) have "stored_ok doc'"
    by (auto simp: stored_ok_def marshal_Task_def IsZero_def split: if_splits)
  with assms(3) c u show ?thesis by simp
qed

lemma set_fields_marshal:
  assumes "set_fields (marshal_Task t) d = Inr d'"
  shows "map_of d' ''_id'' = map_of d ''_id'' \<and> map_of d' ''title'' = Some (BString (Title t))
       \<and> map_of d' ''completed'' =
           (if Completed t then Some (BBoolean True) else map_of d ''completed'')"
  using assms
  by (auto simp: marshal_Task_def update_conv' has_id_def split: if_splits)

lemma update_first_Task:
  assumes "update_first oid (marshal_Task t) coll = Inr (n, coll')"
    and "5 \<le> length (Title t)"
  shows "map (\<lambda>d. map_of d ''_id'') coll' = map (\<lambda>d. map_of d ''_id'') coll
       \<and> (list_all stored_ok coll \<longrightarrow> list_all stored_ok coll')"
  using assms
proof (induction coll arbitrary: n coll')
  case Nil
  then show ?case by simp
next
  case (Cons d ds)
  show ?case
  proof (cases "has_id (BObjectID oid) d")
    case True
    with Cons.prems(1) obtain d' where d': "set_fields (marshal_Task t) d = Inr d'"
      and c: "coll' = d' # ds"
      by (auto split: sum.splits)
    from set_fields_marshal [OF d'] Cons.prems(2) c show ?thesis
      by (auto simp: stored_ok_def)
  next
    case False
    with Cons.prems(1) obtain ds' where r: "update_first oid (marshal_Task t) ds = Inr (n, ds')"
      and c: "coll' = d # ds'"
      by (auto split: sum.splits)
    from Cons.IH [OF r Cons.prems(2)] c show ?thesis by simp
  qed
qed

lemma delete_first_subset: "set (snd (delete_first oid coll)) \<subseteq> set coll"
  by (induction coll) (auto split: prod.splits)

lemma delete_first_unique: "unique_ids coll \<Longrightarrow> unique_ids (snd (delete_first oid coll))"
proof (induction coll)
  case Nil
  then show ?case by simp
next
  case (Cons d ds)
  with delete_first_subset [of oid ds] show ?case
    by (auto simp: unique_ids_def split: prod.splits)
qed

lemma delete_first_stored_ok:
  "list_all stored_ok coll \<Longrightarrow> list_all stored_ok (snd (delete_first oid coll))"
  using delete_first_subset [of oid coll] by (auto simp: list_all_iff)

lemma delete_first_filter:
  "fst (delete_first oid coll) = (if filter (has_id (BObjectID oid)) coll = [] then 0 else 1)
   \<and> filter (has_id (BObjectID oid)) (snd (delete_first oid coll))
       = tl (filter (has_id (BObjectID oid)) coll)"
  by (induction coll) (auto split: prod.splits)

lemma update_first_absent:
  "\<not> list_ex (has_id (BObjectID oid)) coll \<Longrightarrow> update_first oid upd coll = Inr (0, coll)"
  by (induction coll) auto

lemma delete_first_absent:
  "\<not> list_ex (has_id (BObjectID oid)) coll \<Longrightarrow> delete_first oid coll = (0, coll)"
  by (induction coll) auto

lemma set_fields_completed_false:
  assumes "\<not> Completed t" and "set_fields (marshal_Task t) d = Inr d'"
  shows "map_of d' ''completed'' = map_of d ''completed''"
  using set_fields_marshal [OF assms(2)] assms(1) by simp

subsection \<open>An invariant of the collection\<close>

text \<open>
  Every handler keeps the identifiers unique and every stored document well formed in
  the sense of \<^const>\<open>stored_ok\<close>; so these hold of every reachable collection.
\<close>

lemma CreateTask_invariant:
  assumes "unique_ids coll \<and> list_all stored_ok coll" and "NewObjectID e \<noteq> NilObjectID"
  shows "unique_ids (snd (CreateTask e r coll)) \<and> list_all stored_ok (snd (CreateTask e r coll))"
proof (cases "Body r")
  case (Inl err)
  with assms show ?thesis by (simp add: CreateTask_def BindJSON_def)
next
  case (Inr t)
  show ?thesis
  proof (cases "length (Title t) < 5")
    case True
    with Inr assms show ?thesis by (simp add: CreateTask_def BindJSON_def Let_def)
  next
    case False
    then have long: "5 \<le> length (Title (t\<lparr>Completed := False\<rparr>))" by simp
    show ?thesis
    proof (cases "InsertOne e coll (marshal_Task (t\<lparr>Completed := False\<rparr>))")
      case (Inl err)
      with Inr False assms show ?thesis by (auto simp: CreateTask_def BindJSON_def Let_def)
    next
      case ins: (Inr res)
      obtain v coll' where res: "res = (v, coll')" by (cases res)
      from InsertOne_Task [OF ins [unfolded res] _ _ long assms(2)] assms(1)
      have "unique_ids coll' \<and> list_all stored_ok coll'" by simp
      with Inr False ins res show ?thesis by (auto simp: CreateTask_def BindJSON_def Let_def)
    qed
  qed
qed

lemma UpdateTask_invariant:
  assumes "unique_ids coll \<and> list_all stored_ok coll"
  shows "unique_ids (snd (UpdateTask e r coll)) \<and> list_all stored_ok (snd (UpdateTask e r coll))"
proof -
  have "snd (UpdateTask e r coll) = coll
      \<or> (\<exists>oid t n. 5 \<le> length (Title t)
            \<and> update_first oid (marshal_Task t) coll = Inr (n, snd (UpdateTask e r coll)))"
    by (auto simp: UpdateTask_def BindJSON_def UpdateOne_def Let_def
        split: sum.splits option.splits prod.splits)
  then show ?thesis
  proof
    assume "snd (UpdateTask e r coll) = coll"
    with assms show ?thesis by simp
  next
    assume "\<exists>oid t n. 5 \<le> length (Title t)
            \<and> update_first oid (marshal_Task t) coll = Inr (n, snd (UpdateTask e r coll))"
    then obtain oid t n where "5 \<le> length (Title t)"
      and "update_first oid (marshal_Task t) coll = Inr (n, snd (UpdateTask e r coll))"
      by blast
    from update_first_Task [OF this(2,1)] assms show ?thesis
      by (simp add: unique_ids_def)
  qed
qed

lemma DeleteTask_invariant:
  assumes "unique_ids coll \<and> list_all stored_ok coll"
  shows "unique_ids (snd (DeleteTask e r coll)) \<and> list_all stored_ok (snd (DeleteTask e r coll))"
proof (cases "ObjectIDFromHex (Param_id r)")
  case (Inl err)
  with assms show ?thesis by (simp add: DeleteTask_def Let_def)
next
  case (Inr oid)
  show ?thesis
  proof (cases "DeleteOne_err e")
    case (Some err)
    with Inr assms show ?thesis by (simp add: DeleteTask_def DeleteOne_def Let_def)
  next
    case None
    with Inr have "snd (DeleteTask e r coll) = snd (delete_first oid coll)"
      by (simp add: DeleteTask_def DeleteOne_def Let_def split: prod.splits)
    with assms delete_first_unique delete_first_stored_ok show ?thesis by simp
  qed
qed

lemma reachable_invariant:
  "reachable coll \<Longrightarrow> unique_ids coll \<and> list_all stored_ok coll"
proof (induction rule: reachable.induct)
  case init
  show ?case by (simp add: unique_ids_def)
next
  case (create coll e r)
  then show ?case using CreateTask_invariant by blast
next
  case (list coll e r)
  then show ?case
    by (simp add: GetTasks_def Find_def All_def Let_def split: option.splits)
next
  case (get coll e r)
  then show ?case
    by (simp add: GetSpecificTask_def Let_def split: sum.splits)
next
  case (update coll e r)
  then show ?case using UpdateTask_invariant by blast
next
  case (delete coll e r)
  then show ?case using DeleteTask_invariant by blast
qed

subsection \<open>What the handlers answer\<close>

text \<open>
  The status of a response is the first one written. On a fresh writer \<^verbatim>\<open>throwError\<close>
  sends the status it is given; after \<^verbatim>\<open>BindJSON\<close> has aborted the request with 400,
  it adds its body and the status stays 400.
\<close>

lemma throwError_fresh:
  "throwError 500 err new_writer = sent 500 (JObject [(''error'', JErrorText err)])"
  by (simp add: gin_defs)

lemma throwError_after_abort:
  "throwError 500 err (AbortWithStatus 400 new_writer) =
     sent 400 (JObject [(''error'', JErrorText err)])"
  by (simp add: gin_defs)

lemma GetSpecificTask_no_document:
  assumes "ObjectIDFromHex (Param_id r) = Inr oid" and "FindOne_err e = None"
    and "\<not> list_ex (has_id (BObjectID oid)) coll"
  shows "GetSpecificTask e r coll = (sent 500 (JObject [(''error'', JErrorText ErrNoDocuments)]), coll)"
proof -
  from assms(3) have "find (has_id (BObjectID oid)) coll = None"
    by (simp add: find_None_iff list_ex_iff)
  with assms(1,2) show ?thesis
    by (simp add: GetSpecificTask_def FindOne_Decode_def gin_defs)
qed

lemma UpdateTask_no_document:
  assumes "ObjectIDFromHex (Param_id r) = Inr oid" and "UpdateOne_err e = None"
    and "\<not> list_ex (has_id (BObjectID oid)) coll"
    and "Body r = Inr t" and "5 \<le> length (Title t)"
  shows "UpdateTask e r coll = (sent 404 (message ''Task not found''), coll)"
proof -
  from assms(5) have "Title t \<noteq> []" and "\<not> length (Title t) < 5" by auto
  with assms(1,2,4) update_first_absent [OF assms(3)] show ?thesis
    by (simp add: UpdateTask_def UpdateOne_def gin_defs)
qed

lemma DeleteTask_no_document:
  assumes "ObjectIDFromHex (Param_id r) = Inr oid" and "DeleteOne_err e = None"
    and "\<not> list_ex (has_id (BObjectID oid)) coll"
  shows "DeleteTask e r coll = (sent 404 (message ''Task not found''), coll)"
  using assms(1,2) delete_first_absent [OF assms(3)]
  by (simp add: DeleteTask_def DeleteOne_def gin_defs)

lemma CreateTask_without_id:
  assumes "Body r = Inr t" and "5 \<le> length (Title t)" and "ID t = NilObjectID"
    and "InsertOne_err e = None" and "\<not> list_ex (has_id (BObjectID (NewObjectID e))) coll"
  shows "CreateTask e r coll =
           (sent 201 (JObject [(''message'', JString ''Task created''),
                               (''task'', JObject [(''id'', JString (Hex NilObjectID)),
                                                   (''title'', JString (Title t)),
                                                   (''completed'', JBool False)])]),
            coll @ [[(''_id'', BObjectID (NewObjectID e)), (''title'', BString (Title t))]])"
proof -
  from assms(2) have "Title t \<noteq> []" and "\<not> length (Title t) < 5" by auto
  with assms(1,3,4,5) show ?thesis
    by (simp add: CreateTask_def InsertOne_def marshal_Task_def IsZero_def Task_json_def gin_defs
        Let_def)
qed

lemma GetTasks_ok:
  assumes "Find_err e = None" and "All_err e = None"
  shows "GetTasks e r coll =
           (sent 200 (JObject [(''tasks'', if coll = [] then JNull else JArray (map M_json coll))]),
            coll)"
  using assms by (simp add: GetTasks_def Find_def All_def slice_json_def gin_defs)

lemma M_json_not_Task_shape:
  assumes "map_of d ''id'' = None"
  shows "\<not> Task_shape (M_json d)"
proof -
  have "map_of (map (\<lambda>(k, v). (k, bson_json v)) d) ''id'' = None"
    using assms by (induction d) auto
  then show ?thesis by (simp add: Task_shape_def M_json_def)
qed

subsection \<open>Creating a task\<close>

text \<open>
  Claim C1, as amended. For every create request whose body decodes, whose title has
  length at least 5 and whose insert the store accepts, the response has status 201 and
  the task it carries has \<^verbatim>\<open>completed = false\<close>, whatever the body said.
  The insert is refused when the driver call fails, and when the body carries an \<^verbatim>\<open>id\<close>
  that a stored document already has; the handler then answers 500.
\<close>

theorem CreateTask_created:
  assumes "Body r = Inr t" and "5 \<le> length (Title t)"
    and "InsertOne e coll (marshal_Task (t\<lparr>Completed := False\<rparr>)) = Inr (v, coll')"
  shows "CreateTask e r coll =
           (sent 201 (JObject [(''message'', JString ''Task created''),
                               (''task'', JObject [(''id'', JString (Hex (ID t))),
                                                   (''title'', JString (Title t)),
                                                   (''completed'', JBool False)])]), coll')"
proof -
  from assms(2) have "Title t \<noteq> []" and "\<not> length (Title t) < 5" by auto
  with assms(1,3) show ?thesis
    by (simp add: CreateTask_def gin_defs Task_json_def)
qed

theorem CreateTask_created_witness:
  "CreateTask (healthy [0,0,0,0,0,0,0,0,0,0,0,1])
      \<lparr>Param_id = [], Body = Inr \<lparr>ID = NilObjectID, Title = ''Buy milk'', Completed = True\<rparr>\<rparr> [] =
   (sent 201 (JObject [(''message'', JString ''Task created''),
                       (''task'', JObject [(''id'', JString ''000000000000000000000000''),
                                           (''title'', JString ''Buy milk''),
                                           (''completed'', JBool False)])]),
    [[(''_id'', BObjectID [0,0,0,0,0,0,0,0,0,0,0,1]), (''title'', BString ''Buy milk'')]])"
proof -
  let ?t = "\<lparr>ID = NilObjectID, Title = ''Buy milk'', Completed = True\<rparr>"
  let ?e = "healthy [0,0,0,0,0,0,0,0,0,0,0,1]"
  have ins: "InsertOne ?e [] (marshal_Task (?t\<lparr>Completed := False\<rparr>)) =
      Inr (BObjectID [0,0,0,0,0,0,0,0,0,0,0,1],
           [[(''_id'', BObjectID [0,0,0,0,0,0,0,0,0,0,0,1]), (''title'', BString ''Buy milk'')]])"
    by (simp add: InsertOne_def marshal_Task_def healthy_def IsZero_def)
  have hex: "Hex NilObjectID = ''000000000000000000000000''"
    by code_simp
  from CreateTask_created [of "\<lparr>Param_id = [], Body = Inr ?t\<rparr>" ?t ?e "[]", OF _ _ ins] hex
  show ?thesis by simp
qed

text \<open>
  The claim as written fails: this body decodes and its title has eight bytes, but it
  carries the identifier of a stored document, so the insert is refused and the status
  is 500.
\<close>

theorem CreateTask_duplicate_id_counterexample:
  "CreateTask (healthy [0,0,0,0,0,0,0,0,0,0,0,2])
      \<lparr>Param_id = [],
       Body = Inr \<lparr>ID = [0,0,0,0,0,0,0,0,0,0,0,1], Title = ''Buy milk'', Completed = False\<rparr>\<rparr>
      [[(''_id'', BObjectID [0,0,0,0,0,0,0,0,0,0,0,1]), (''title'', BString ''Water plants'')]] =
   (sent 500 (JObject [(''error'', JErrorText DuplicateKey)]),
    [[(''_id'', BObjectID [0,0,0,0,0,0,0,0,0,0,0,1]), (''title'', BString ''Water plants'')]])"
  by code_simp

text \<open>
  Claim C3 says that the task in the 201 response carries the identifier of the stored
  record. \<^verbatim>\<open>CreateTask\<close> drops the result of \<^verbatim>\<open>InsertOne\<close> and sends its own
  copy of the struct, which the driver never touched: for a body without an \<^verbatim>\<open>id\<close>
  the response says \<^verbatim>\<open>000000000000000000000000\<close>, while the stored document has the
  generated identifier.
\<close>

theorem CreateTask_response_id:
  "CreateTask (healthy [0,0,0,0,0,0,0,0,0,0,0,1])
      \<lparr>Param_id = [], Body = Inr \<lparr>ID = NilObjectID, Title = ''Buy milk'', Completed = False\<rparr>\<rparr> [] =
   (sent 201 (JObject [(''message'', JString ''Task created''),
                       (''task'', JObject [(''id'', JString ''000000000000000000000000''),
                                           (''title'', JString ''Buy milk''),
                                           (''completed'', JBool False)])]),
    [[(''_id'', BObjectID [0,0,0,0,0,0,0,0,0,0,0,1]), (''title'', BString ''Buy milk'')]])
   \<and> Hex [0,0,0,0,0,0,0,0,0,0,0,1] = ''000000000000000000000001''"
  by code_simp

text \<open>
  Claim C8 says that every stored document has a boolean \<^verbatim>\<open>completed\<close> field.
  The document that a create request stores has none: the handler sets the field to
  \<^verbatim>\<open>false\<close> and the codec leaves out a \<^verbatim>\<open>false\<close> tagged \<^verbatim>\<open>omitempty\<close>.
\<close>

theorem stored_task_lacks_completed:
  "map (\<lambda>d. map_of d ''completed'')
     (snd (CreateTask (healthy [0,0,0,0,0,0,0,0,0,0,0,1])
        \<lparr>Param_id = [], Body = Inr \<lparr>ID = NilObjectID, Title = ''Buy milk'', Completed = False\<rparr>\<rparr> []))
   = [None]"
  by code_simp

subsection \<open>Validation of the title\<close>

lemma utf8_characters_le: "utf8_characters s \<le> length s"
  by (simp add: utf8_characters_def)

text \<open>
  Claim C4, as amended. A create request whose decoded title is shorter than 5 bytes is
  answered 422, with the message \<^verbatim>\<open>Title cannot be empty\<close> when the title is empty and
  \<^verbatim>\<open>Title length must be at least 5\<close> otherwise; so is an update request, whose body
  the handler decodes once the identifier in the path has parsed. The environment has no
  part in the answer and the collection is returned as it was: no call to the store is made.
\<close>

theorem title_rejected:
  assumes "Body r = Inr t" and "length (Title t) < 5"
  shows "CreateTask e r coll =
           (sent 422 (message (if Title t = [] then ''Title cannot be empty''
                               else ''Title length must be at least 5'')), coll)
       \<and> (ObjectIDFromHex (Param_id r) = Inr oid \<longrightarrow>
          UpdateTask e r coll =
           (sent 422 (message (if Title t = [] then ''Title cannot be empty''
                               else ''Title length must be at least 5'')), coll))"
  using assms by (simp add: CreateTask_def UpdateTask_def gin_defs)

theorem title_rejected_witness:
  "CreateTask (healthy [0,0,0,0,0,0,0,0,0,0,0,1])
      \<lparr>Param_id = ''000000000000000000000000'',
       Body = Inr \<lparr>ID = NilObjectID, Title = ''ab'', Completed = False\<rparr>\<rparr> [] =
     (sent 422 (message ''Title length must be at least 5''), [])
   \<and> UpdateTask (healthy [0,0,0,0,0,0,0,0,0,0,0,1])
      \<lparr>Param_id = ''000000000000000000000000'',
       Body = Inr \<lparr>ID = NilObjectID, Title = ''ab'', Completed = False\<rparr>\<rparr> [] =
     (sent 422 (message ''Title length must be at least 5''), [])
   \<and> CreateTask (healthy [0,0,0,0,0,0,0,0,0,0,0,1])
      \<lparr>Param_id = ''000000000000000000000000'',
       Body = Inr \<lparr>ID = NilObjectID, Title = [], Completed = False\<rparr>\<rparr> [] =
     (sent 422 (message ''Title cannot be empty''), [])
   \<and> UpdateTask (healthy [0,0,0,0,0,0,0,0,0,0,0,1])
      \<lparr>Param_id = ''000000000000000000000000'',
       Body = Inr \<lparr>ID = NilObjectID, Title = [], Completed = False\<rparr>\<rparr> [] =
     (sent 422 (message ''Title cannot be empty''), [])"
proof -
  have hex: "ObjectIDFromHex ''000000000000000000000000'' = Inr NilObjectID"
    by code_simp
  let ?e = "healthy [0,0,0,0,0,0,0,0,0,0,0,1]"
  let ?short = "\<lparr>ID = NilObjectID, Title = ''ab'', Completed = False\<rparr>"
  let ?empty = "\<lparr>ID = NilObjectID, Title = [], Completed = False\<rparr>"
  from title_rejected [of "\<lparr>Param_id = ''000000000000000000000000'', Body = Inr ?short\<rparr>" ?short ?e "[]" NilObjectID]
       title_rejected [of "\<lparr>Param_id = ''000000000000000000000000'', Body = Inr ?empty\<rparr>" ?empty ?e "[]" NilObjectID]
       hex
  show ?thesis by simp
qed

text \<open>
  The claim as written, with the length in characters, fails: the handlers compare
  \<^verbatim>\<open>len(title)\<close>, the number of bytes. This title has four characters, the last one
  (e with an acute accent) in two bytes; it is accepted and stored.
\<close>

theorem four_characters_accepted_counterexample:
  "utf8_characters [CHR ''a'', CHR ''b'', CHR ''c'', CHR 0xC3, CHR 0xA9] = 4
   \<and> CreateTask (healthy [0,0,0,0,0,0,0,0,0,0,0,1])
        \<lparr>Param_id = [],
         Body = Inr \<lparr>ID = NilObjectID, Title = [CHR ''a'', CHR ''b'', CHR ''c'', CHR 0xC3, CHR 0xA9],
                     Completed = False\<rparr>\<rparr> [] =
       (sent 201 (JObject [(''message'', JString ''Task created''),
                           (''task'', JObject [(''id'', JString ''000000000000000000000000''),
                                               (''title'', JString [CHR ''a'', CHR ''b'', CHR ''c'',
                                                                    CHR 0xC3, CHR 0xA9]),
                                               (''completed'', JBool False)])]),
        [[(''_id'', BObjectID [0,0,0,0,0,0,0,0,0,0,0,1]),
          (''title'', BString [CHR ''a'', CHR ''b'', CHR ''c'', CHR 0xC3, CHR 0xA9])]])"
  by code_simp

subsection \<open>Reading\<close>

text \<open>
  Claim C2 says that get-by-id, update and delete each answer 404 for a well-formed
  identifier that no stored record has. Update and delete do; \<^verbatim>\<open>GetSpecificTask\<close>
  sends every error of \<^verbatim>\<open>FindOne\<close> as 500, the error for no document among them.
\<close>

theorem GetSpecificTask_miss:
  "status (fst (GetSpecificTask (healthy [0,0,0,0,0,0,0,0,0,0,0,1])
      \<lparr>Param_id = ''000000000000000000000000'', Body = Inl (BindError [])\<rparr> [])) = 500
   \<and> status (fst (UpdateTask (healthy [0,0,0,0,0,0,0,0,0,0,0,1])
      \<lparr>Param_id = ''000000000000000000000000'',
       Body = Inr \<lparr>ID = NilObjectID, Title = ''Buy milk'', Completed = False\<rparr>\<rparr> [])) = 404
   \<and> status (fst (DeleteTask (healthy [0,0,0,0,0,0,0,0,0,0,0,1])
      \<lparr>Param_id = ''000000000000000000000000'', Body = Inl (BindError [])\<rparr> [])) = 404"
  by code_simp

text \<open>
  Claim C9 says that each element of the list has the Task JSON shape. \<^verbatim>\<open>GetTasks\<close>
  decodes into \<^verbatim>\<open>bson.M\<close>, not into \<^verbatim>\<open>Task\<close>, so each element is the stored
  document under its own keys: the identifier under \<^verbatim>\<open>_id\<close>, and no
  \<^verbatim>\<open>completed\<close> member when none is stored. Here the list is requested after one task
  was created.
\<close>

theorem GetTasks_elements:
  "GetTasks (healthy [0,0,0,0,0,0,0,0,0,0,0,2]) \<lparr>Param_id = [], Body = Inl (BindError [])\<rparr>
     (snd (CreateTask (healthy [0,0,0,0,0,0,0,0,0,0,0,1])
        \<lparr>Param_id = [], Body = Inr \<lparr>ID = NilObjectID, Title = ''Buy milk'', Completed = False\<rparr>\<rparr> []))
   = (sent 200 (JObject [(''tasks'', JArray [JObject [(''_id'', JString ''000000000000000000000001''),
                                                      (''title'', JString ''Buy milk'')]])]),
      [[(''_id'', BObjectID [0,0,0,0,0,0,0,0,0,0,0,1]), (''title'', BString ''Buy milk'')]])
   \<and> \<not> Task_shape (JObject [(''_id'', JString ''000000000000000000000001''),
                            (''title'', JString ''Buy milk'')])"
  by code_simp

subsection \<open>Updating\<close>

text \<open>
  Claim C5 says that an update persists the submitted \<^verbatim>\<open>completed\<close> value, also when it
  is \<^verbatim>\<open>false\<close>. The codec leaves a \<^verbatim>\<open>false\<close> out of the \<^verbatim>\<open>$set\<close> document, so
  the stored \<^verbatim>\<open>true\<close> stays, and the handler answers 200.
\<close>

theorem UpdateTask_completed_false:
  "UpdateTask (healthy [0,0,0,0,0,0,0,0,0,0,0,2])
      \<lparr>Param_id = ''000000000000000000000001'',
       Body = Inr \<lparr>ID = NilObjectID, Title = ''Buy milk'', Completed = False\<rparr>\<rparr>
      [[(''_id'', BObjectID [0,0,0,0,0,0,0,0,0,0,0,1]), (''title'', BString ''Buy milk''),
        (''completed'', BBoolean True)]] =
   (sent 200 (message ''Task updated''),
    [[(''_id'', BObjectID [0,0,0,0,0,0,0,0,0,0,0,1]), (''title'', BString ''Buy milk''),
      (''completed'', BBoolean True)]])"
  by code_simp

text \<open>
  Claim C6. An update request with a well-formed identifier and a body that does not bind
  is answered 400. \<^verbatim>\<open>BindJSON\<close> has sent the status 400 before the handler sees the
  error; the 500 that the handler then passes to \<^verbatim>\<open>throwError\<close> comes after the
  status line and does not replace it. The collection is left as it was.
\<close>

theorem UpdateTask_malformed_body:
  assumes "ObjectIDFromHex (Param_id r) = Inr oid" and "Body r = Inl err"
  shows "UpdateTask e r coll = (sent 400 (JObject [(''error'', JErrorText err)]), coll)"
  using assms by (simp add: UpdateTask_def gin_defs)

theorem UpdateTask_malformed_body_witness:
  "UpdateTask (healthy [0,0,0,0,0,0,0,0,0,0,0,2])
      \<lparr>Param_id = ''000000000000000000000001'', Body = Inl (BindError ''unexpected EOF'')\<rparr>
      [[(''_id'', BObjectID [0,0,0,0,0,0,0,0,0,0,0,1]), (''title'', BString ''Buy milk'')]] =
   (sent 400 (JObject [(''error'', JErrorText (BindError ''unexpected EOF''))]),
    [[(''_id'', BObjectID [0,0,0,0,0,0,0,0,0,0,0,1]), (''title'', BString ''Buy milk'')]])"
proof -
  have hex: "ObjectIDFromHex ''000000000000000000000001'' = Inr [0,0,0,0,0,0,0,0,0,0,0,1]"
    by code_simp
  from UpdateTask_malformed_body
         [where r = "\<lparr>Param_id = ''000000000000000000000001'', Body = Inl (BindError ''unexpected EOF'')\<rparr>"
            and oid = "[0,0,0,0,0,0,0,0,0,0,0,1]" and err = "BindError ''unexpected EOF''"
            and e = "healthy [0,0,0,0,0,0,0,0,0,0,0,2]"
            and coll = "[[(''_id'', BObjectID [0,0,0,0,0,0,0,0,0,0,0,1]), (''title'', BString ''Buy milk'')]]"]
       hex
  show ?thesis by simp
qed

subsection \<open>Deleting\<close>

lemma unique_ids_one_record:
  assumes "unique_ids coll" and "list_ex (has_id v) coll"
  shows "\<exists>d. filter (has_id v) coll = [d]"
  using assms
proof (induction coll)
  case Nil
  then show ?case by simp
next
  case (Cons d ds)
  show ?case
  proof (cases "has_id v d")
    case True
    with Cons.prems(1) have "filter (has_id v) ds = []"
      by (auto simp: unique_ids_def has_id_def filter_empty_conv image_iff)
    with True show ?thesis by simp
  next
    case False
    with Cons show ?thesis by (simp add: unique_ids_def)
  qed
qed

lemma DeleteTask_twice_one_record:
  assumes "ObjectIDFromHex (Param_id r) = Inr oid"
    and "filter (has_id (BObjectID oid)) coll = [d]"
    and "DeleteOne_err e1 = None" and "DeleteOne_err e2 = None"
  shows "fst (DeleteTask e1 r coll) = sent 200 (message ''Task deleted'')
       \<and> fst (DeleteTask e2 r (snd (DeleteTask e1 r coll))) = sent 404 (message ''Task not found'')"
proof -
  obtain n coll1 where d1: "delete_first oid coll = (n, coll1)"
    by (cases "delete_first oid coll")
  with delete_first_filter [of oid coll] assms(2)
  have n: "n = 1" and gone: "filter (has_id (BObjectID oid)) coll1 = []"
    by simp_all
  from assms(1,3) d1 n have first: "DeleteTask e1 r coll = (sent 200 (message ''Task deleted''), coll1)"
    by (simp add: DeleteTask_def DeleteOne_def gin_defs)
  obtain m coll2 where d2: "delete_first oid coll1 = (m, coll2)"
    by (cases "delete_first oid coll1")
  with delete_first_filter [of oid coll1] gone have "m = 0"
    by simp
  with assms(1,4) d2 have "fst (DeleteTask e2 r coll1) = sent 404 (message ''Task not found'')"
    by (simp add: DeleteTask_def DeleteOne_def gin_defs)
  with first show ?thesis by simp
qed

text \<open>
  A failure of the store is another matter: the handler answers 500, whatever the
  collection holds.
\<close>

lemma DeleteTask_store_error:
  assumes "ObjectIDFromHex (Param_id r) = Inr oid" and "DeleteOne_err e = Some err"
  shows "DeleteTask e r coll = (sent 500 (JObject [(''error'', JErrorText err)]), coll)"
  using assms by (simp add: DeleteTask_def DeleteOne_def gin_defs)

text \<open>
  Claim C7. With a store that does not fail, and on any collection that the handlers
  have produced from the empty one: for every well-formed identifier of an existing
  record, two delete requests in sequence are answered 200 with the message
  \<^verbatim>\<open>Task deleted\<close> and then 404.
\<close>

theorem DeleteTask_twice:
  assumes "reachable coll"
    and "ObjectIDFromHex (Param_id r) = Inr oid"
    and "list_ex (has_id (BObjectID oid)) coll"
    and "DeleteOne_err e1 = None" and "DeleteOne_err e2 = None"
  shows "fst (DeleteTask e1 r coll) = sent 200 (message ''Task deleted'')
       \<and> fst (DeleteTask e2 r (snd (DeleteTask e1 r coll))) = sent 404 (message ''Task not found'')"
proof -
  from reachable_invariant [OF assms(1)] have "unique_ids coll" by simp
  from unique_ids_one_record [OF this assms(3)]
  obtain d where "filter (has_id (BObjectID oid)) coll = [d]" by blast
  from DeleteTask_twice_one_record [OF assms(2) this assms(4,5)] show ?thesis .
qed

theorem DeleteTask_twice_witness:
  "reachable [[(''_id'', BObjectID [0,0,0,0,0,0,0,0,0,0,0,1]), (''title'', BString ''Buy milk'')]]
   \<and> fst (DeleteTask (healthy [0,0,0,0,0,0,0,0,0,0,0,2])
          \<lparr>Param_id = ''000000000000000000000001'', Body = Inl (BindError [])\<rparr>
          [[(''_id'', BObjectID [0,0,0,0,0,0,0,0,0,0,0,1]), (''title'', BString ''Buy milk'')]])
     = sent 200 (message ''Task deleted'')
   \<and> fst (DeleteTask (healthy [0,0,0,0,0,0,0,0,0,0,0,3])
          \<lparr>Param_id = ''000000000000000000000001'', Body = Inl (BindError [])\<rparr>
          (snd (DeleteTask (healthy [0,0,0,0,0,0,0,0,0,0,0,2])
                  \<lparr>Param_id = ''000000000000000000000001'', Body = Inl (BindError [])\<rparr>
                  [[(''_id'', BObjectID [0,0,0,0,0,0,0,0,0,0,0,1]),
                    (''title'', BString ''Buy milk'')]])))
     = sent 404 (message ''Task not found'')"
proof -
  let ?d = "[(''_id'', BObjectID [0,0,0,0,0,0,0,0,0,0,0,1]), (''title'', BString ''Buy milk'')]"
  let ?post = "\<lparr>Param_id = [], Body = Inr \<lparr>ID = NilObjectID, Title = ''Buy milk'', Completed = False\<rparr>\<rparr>"
  have gen: "NewObjectID (healthy [0,0,0,0,0,0,0,0,0,0,0,1]) \<noteq> NilObjectID"
    by code_simp
  have created: "snd (CreateTask (healthy [0,0,0,0,0,0,0,0,0,0,0,1]) ?post []) = [?d]"
    by code_simp
  from reachable.create [OF reachable.init gen, of ?post] created
  have reach: "reachable [?d]" by simp
  have hex: "ObjectIDFromHex ''000000000000000000000001'' = Inr [0,0,0,0,0,0,0,0,0,0,0,1]"
    by code_simp
  have ex: "list_ex (has_id (BObjectID [0,0,0,0,0,0,0,0,0,0,0,1])) [?d]"
    by (simp add: has_id_def)
  from DeleteTask_twice
         [where r = "\<lparr>Param_id = ''000000000000000000000001'', Body = Inl (BindError [])\<rparr>"
            and oid = "[0,0,0,0,0,0,0,0,0,0,0,1]" and coll = "[?d]"
            and ?e1.0 = "healthy [0,0,0,0,0,0,0,0,0,0,0,2]"
            and ?e2.0 = "healthy [0,0,0,0,0,0,0,0,0,0,0,3]", OF reach _ ex]
       hex reach
  show ?thesis by (simp add: healthy_def)
qed

subsection \<open>Start-up without the connection string\<close>

text \<open>
  Claim C10. When \<^verbatim>\<open>MONGO_URI\<close> is not set, \<^verbatim>\<open>SetUpDatabase\<close> returns an error, and
  \<^verbatim>\<open>main\<close> prints it and returns: no route is registered and the server is not started.
\<close>

theorem no_MONGO_URI:
  assumes "MONGO_URI s = []"
  shows "SetUpDatabase s = ([], Inl (Errorf ''MONGO_URI not set''))
       \<and> main s = ([Print (Errorf ''MONGO_URI not set'')], Returned)"
  using assms by (simp add: SetUpDatabase_def main_def)

theorem no_MONGO_URI_witness:
  "SetUpDatabase \<lparr>MONGO_URI = [], Connect_err = None, Ping_err = None\<rparr> =
     ([], Inl (Errorf ''MONGO_URI not set''))
   \<and> main \<lparr>MONGO_URI = [], Connect_err = None, Ping_err = None\<rparr> =
     ([Print (Errorf ''MONGO_URI not set'')], Returned)"
  using no_MONGO_URI [of "\<lparr>MONGO_URI = [], Connect_err = None, Ping_err = None\<rparr>"] by simp

end
